theory Spec2Isabelle
  imports Complex_Main "HOL-Library.Multiset"
begin

section \<open>Data model\<close>

text \<open>
  The draft-results source is a JSON document with the keys \<open>draft_info\<close>, \<open>teams\<close> and
  \<open>draft_picks\<close>. A pick is read with \<open>pick['player_name']\<close>, \<open>pick['team_id']\<close>,
  \<open>pick['drafting_team']\<close>, \<open>pick['keeper_status']\<close> (keys that must be there) and with
  \<open>pick.get('round')\<close>, \<open>pick.get('overall_pick')\<close>, \<open>pick.get('2025_keeper_eligible', True)\<close>,
  \<open>pick.get('waiver_pickup', False)\<close> (keys that may be absent): the latter are options.
  Strings are lists of ASCII characters, JSON and CSV integers are unbounded integers. A
  missing value of a column (pandas' NaN or None) is \<open>None\<close>.
\<close>

record team =
  team_id :: int
  team_name :: string
  manager :: string
  team_rank :: int
  rating :: int
  level :: string

record draft_pick =
  pick_player_name :: string
  pick_team_id :: int
  pick_drafting_team :: string
  pick_round :: "int option"
  pick_overall_pick :: "int option"
  pick_keeper_status :: bool
  pick_keeper_eligible_2025 :: "bool option"
  pick_waiver_pickup :: "bool option"

record league_info =
  total_teams :: int
  total_rounds :: int
  draft_type :: string

record draft_data =
  draft_info :: league_info
  teams :: "team list"
  draft_picks :: "draft_pick list"

text \<open>A row of \<open>fantasy_pros.csv\<close>, under the column names of the file.\<close>

record ranking_row =
  PLAYER_NAME :: string
  RK :: "int option"
  POS :: "string option"

text \<open>
  The rows of the data frames. \<open>draft_row\<close> is a row of \<open>draft_df\<close>; the merge adds the two
  ranking columns, the derivation adds the two derived columns, and the recommendation
  selector adds \<open>keeper_value\<close>. The helper column \<open>player_name_clean\<close> only carries the join
  key and is dropped by the selection of \<open>final_columns\<close>; the model computes the key where
  it is compared.
\<close>

record draft_row =
  player_name :: string
  manager_2024 :: string
  draft_round_2024 :: "int option"
  overall_pick_2024 :: "int option"
  keeper_status_2024 :: bool
  keeper_eligible_2025 :: bool
  waiver_pickup :: bool

record merged_row = draft_row +
  draft_rank_2025 :: "int option"
  position_rank_2025 :: "string option"

record keeper_record = merged_row +
  projected_draft_round_2025 :: "int option"
  keeper_round_2025 :: "int option"

record recommendation = keeper_record +
  keeper_value :: "int option"

datatype error = SourceUnavailable | KeyError

section \<open>Strings\<close>

text \<open>\<open>str.strip()\<close> removes leading and trailing whitespace; \<open>str.lower()\<close> maps the
  upper-case letters to lower case; \<open>a in b\<close> is the substring test;
  \<open>s.startswith(p)\<close> the prefix test.\<close>

definition is_space :: "char \<Rightarrow> bool" where
  "is_space c = (let n = (of_char c :: nat) in (9 \<le> n \<and> n \<le> 13) \<or> (28 \<le> n \<and> n \<le> 32))"

definition strip :: "string \<Rightarrow> string" where
  "strip s = rev (dropWhile is_space (rev (dropWhile is_space s)))"

definition lower_char :: "char \<Rightarrow> char" where
  "lower_char c = (let n = (of_char c :: nat) in if 65 \<le> n \<and> n \<le> 90 then char_of (n + 32) else c)"

definition lower :: "string \<Rightarrow> string" where
  "lower s = map lower_char s"

definition startswith :: "string \<Rightarrow> string \<Rightarrow> bool" where
  "startswith s p = (take (length p) s = p)"

fun str_in :: "string \<Rightarrow> string \<Rightarrow> bool" where
  "str_in a [] = (a = [])"
| "str_in a (c # cs) = (startswith (c # cs) a \<or> str_in a cs)"

section \<open>The keeper analysis transform\<close>

text \<open>The loop over \<open>draft_data['teams']\<close> fills the dictionary \<open>team_to_manager\<close>;
  a later team of the same name overwrites an earlier one.\<close>

definition team_to_manager :: "team list \<Rightarrow> (string \<rightharpoonup> string)" where
  "team_to_manager ts = foldl (\<lambda>m t. m(team_name t \<mapsto> manager t)) Map.empty ts"

text \<open>One entry of \<open>draft_records\<close>; \<open>dict.get(key, default)\<close> gives the default for an
  absent key.\<close>

definition draft_record :: "(string \<rightharpoonup> string) \<Rightarrow> draft_pick \<Rightarrow> draft_row" where
  "draft_record t2m pick =
     \<lparr> player_name = pick_player_name pick,
       manager_2024 = (case t2m (pick_drafting_team pick) of
                         Some m \<Rightarrow> m | None \<Rightarrow> pick_drafting_team pick),
       draft_round_2024 = pick_round pick,
       overall_pick_2024 = pick_overall_pick pick,
       keeper_status_2024 = pick_keeper_status pick,
       keeper_eligible_2025 = (case pick_keeper_eligible_2025 pick of Some b \<Rightarrow> b | None \<Rightarrow> True),
       waiver_pickup = (case pick_waiver_pickup pick of Some b \<Rightarrow> b | None \<Rightarrow> False) \<rparr>"

text \<open>
  \<open>pd.merge(draft_df, fantasy_df[...], on='player_name_clean', how='left')\<close>: the rows of
  the left frame in their order; a left row is paired with every right row of the same
  key, in the right frame's order, and appears once with missing right columns when no
  right row has its key.
\<close>

definition join_row :: "draft_row \<Rightarrow> int option \<Rightarrow> string option \<Rightarrow> merged_row" where
  "join_row d r p = draft_row.extend d (merged_row.fields r p)"

definition matching_rankings :: "ranking_row list \<Rightarrow> draft_row \<Rightarrow> ranking_row list" where
  "matching_rankings rs d = filter (\<lambda>r. strip (PLAYER_NAME r) = strip (player_name d)) rs"

definition merge_one :: "ranking_row list \<Rightarrow> draft_row \<Rightarrow> merged_row list" where
  "merge_one rs d =
     (case matching_rankings rs d of
        [] \<Rightarrow> [join_row d None None]
      | ms \<Rightarrow> map (\<lambda>r. join_row d (RK r) (POS r)) ms)"

definition merge_left :: "draft_row list \<Rightarrow> ranking_row list \<Rightarrow> merged_row list" where
  "merge_left ds rs = concat (map (merge_one rs) ds)"

text \<open>
  \<open>math.ceil(x / 12) if pd.notna(x) else None\<close>. The quotient is a float in the source and
  an exact real here; the two ceilings agree for every rank below \<open>2 ^ 49\<close>.
\<close>

definition projected_round :: "int option \<Rightarrow> int option" where
  "projected_round x = (case x of Some n \<Rightarrow> Some \<lceil>real_of_int n / 12\<rceil> | None \<Rightarrow> None)"

definition calculate_keeper_round :: "merged_row \<Rightarrow> int option" where
  "calculate_keeper_round row =
     (if waiver_pickup row then Some 5
      else (case draft_round_2024 row of
              Some r \<Rightarrow> Some (max 1 (r - 1))
            | None \<Rightarrow> None))"

definition derive :: "merged_row \<Rightarrow> keeper_record" where
  "derive row = merged_row.extend row
     (keeper_record.fields (projected_round (draft_rank_2025 row)) (calculate_keeper_round row))"

text \<open>\<open>~col.astype(str).str.startswith(('K', 'DST'), na=False)\<close>: \<open>astype(str)\<close> writes a
  missing value as the string \<open>nan\<close>.\<close>

definition astype_str :: "string option \<Rightarrow> string" where
  "astype_str v = (case v of Some s \<Rightarrow> s | None \<Rightarrow> ''nan'')"

definition not_kicker_or_defense :: "keeper_record \<Rightarrow> bool" where
  "not_kicker_or_defense row =
     (\<not> (startswith (astype_str (position_rank_2025 row)) ''K''
         \<or> startswith (astype_str (position_rank_2025 row)) ''DST''))"

definition has_rank :: "keeper_record \<Rightarrow> bool" where
  "has_rank row = (draft_rank_2025 row \<noteq> None)"

text \<open>
  \<open>sort_values(column)\<close> sorts ascending and puts the missing values last. The model is
  an insertion sort that keeps the order of rows of equal key.
\<close>

fun na_last_le :: "int option \<Rightarrow> int option \<Rightarrow> bool" where
  "na_last_le (Some a) (Some b) = (a \<le> b)"
| "na_last_le None (Some b) = False"
| "na_last_le (Some a) None = True"
| "na_last_le None None = True"

fun insert_row :: "('a \<Rightarrow> 'a \<Rightarrow> bool) \<Rightarrow> 'a \<Rightarrow> 'a list \<Rightarrow> 'a list" where
  "insert_row le x [] = [x]"
| "insert_row le x (y # ys) = (if le x y then x # y # ys else y # insert_row le x ys)"

definition sort_rows :: "('a \<Rightarrow> 'a \<Rightarrow> bool) \<Rightarrow> 'a list \<Rightarrow> 'a list" where
  "sort_rows le xs = foldr (insert_row le) xs []"

definition sort_values_overall_pick :: "keeper_record list \<Rightarrow> keeper_record list" where
  "sort_values_overall_pick rows =
     sort_rows (\<lambda>a b. na_last_le (overall_pick_2024 a) (overall_pick_2024 b)) rows"

text \<open>
  The body of the \<open>try\<close> block of \<open>create_keeper_analysis_dataframe\<close>, the same in
  \<open>app.py\<close> and \<open>api/index.py\<close>. A source that cannot be opened or parsed is \<open>None\<close> and
  raises. \<open>pd.DataFrame([])\<close> has no columns, so with no draft pick at all
  \<open>draft_df['player_name']\<close> raises KeyError.
\<close>

definition keeper_analysis_frame ::
  "draft_data option \<Rightarrow> ranking_row list option \<Rightarrow> error + keeper_record list" where
  "keeper_analysis_frame draft_src fantasy_src =
     (case draft_src of
        None \<Rightarrow> Inl SourceUnavailable
      | Some draft \<Rightarrow>
          (case fantasy_src of
             None \<Rightarrow> Inl SourceUnavailable
           | Some fantasy_df \<Rightarrow>
               (let t2m = team_to_manager (teams draft);
                    draft_records = map (draft_record t2m) (draft_picks draft)
                in if draft_records = [] then Inl KeyError
                   else
                     (let merged_df = merge_left draft_records fantasy_df;
                          result_df = map derive merged_df;
                          result_df = filter not_kicker_or_defense result_df;
                          result_df = filter has_rank result_df
                      in Inr (sort_values_overall_pick result_df)))))"

text \<open>\<open>app.py\<close> returns \<open>None\<close> from both \<open>except\<close> clauses.\<close>

definition create_keeper_analysis_dataframe_app ::
  "draft_data option \<Rightarrow> ranking_row list option \<Rightarrow> keeper_record list option" where
  "create_keeper_analysis_dataframe_app draft_src fantasy_src =
     (case keeper_analysis_frame draft_src fantasy_src of
        Inl e \<Rightarrow> None
      | Inr df \<Rightarrow> Some df)"

text \<open>\<open>api/index.py\<close> returns the empty frame \<open>pd.DataFrame()\<close> from its \<open>except\<close> clause.\<close>

definition create_keeper_analysis_dataframe ::
  "draft_data option \<Rightarrow> ranking_row list option \<Rightarrow> keeper_record list" where
  "create_keeper_analysis_dataframe draft_src fantasy_src =
     (case keeper_analysis_frame draft_src fantasy_src of
        Inl e \<Rightarrow> []
      | Inr df \<Rightarrow> df)"

section \<open>The keeper recommendation selector\<close>

text \<open>
  The JSON answers of \<open>api_keeper_recommendations\<close>: a success body with the manager, the
  recommendations and, on one path, a message; or an error body with its HTTP status.
\<close>

datatype response =
    Success string "recommendation list" "string option"
  | Failure nat string

text \<open>The difference of two columns is missing where either operand is missing.\<close>

fun column_minus :: "int option \<Rightarrow> int option \<Rightarrow> int option" where
  "column_minus (Some a) (Some b) = Some (a - b)"
| "column_minus _ _ = None"

definition with_keeper_value :: "keeper_record \<Rightarrow> recommendation" where
  "with_keeper_value row = keeper_record.extend row
     (recommendation.fields
        (column_minus (projected_draft_round_2025 row) (keeper_round_2025 row)))"

text \<open>
  \<open>DataFrame.nlargest(n, column)\<close> is documented as the first \<open>n\<close> rows of
  \<open>sort_values(column, ascending=False)\<close>, with \<open>keep='first'\<close>: rows of equal value stay in
  their order, and \<open>sort_values\<close> puts the rows with a missing value last.
\<close>

fun na_last_ge :: "int option \<Rightarrow> int option \<Rightarrow> bool" where
  "na_last_ge (Some a) (Some b) = (b \<le> a)"
| "na_last_ge None (Some b) = False"
| "na_last_ge (Some a) None = True"
| "na_last_ge None None = True"

definition sort_values_keeper_value_desc :: "recommendation list \<Rightarrow> recommendation list" where
  "sort_values_keeper_value_desc rows =
     sort_rows (\<lambda>a b. na_last_ge (keeper_value a) (keeper_value b)) rows"

definition nlargest :: "nat \<Rightarrow> recommendation list \<Rightarrow> recommendation list" where
  "nlargest n rows = take n (sort_values_keeper_value_desc rows)"

text \<open>The selection \<open>df[(df['2024_manager'] == manager) & (df['2025_keeper_eligible'] == True)]\<close>.\<close>

definition manager_rows :: "keeper_record list \<Rightarrow> string \<Rightarrow> keeper_record list" where
  "manager_rows df mgr =
     filter (\<lambda>r. manager_2024 r = mgr \<and> keeper_eligible_2025 r = True) df"

text \<open>
  The type of a numeric column. A column that holds a number in some row is a column of
  numbers in which a missing entry is NaN. A column in which every entry is \<open>None\<close>, as
  \<open>merged_df.apply(calculate_keeper_round_local, axis=1)\<close> makes it when no pick of the
  draft is a waiver pickup or has a draft round, has dtype \<open>object\<close>; the selection of
  rows does not change the type of a column.
\<close>

datatype dtype = Number | Object

definition column_dtype :: "int option list \<Rightarrow> dtype" where
  "column_dtype vs = (if list_all (\<lambda>v. v = None) vs then Object else Number)"

text \<open>The dtype of the column \<open>2025_keeper_round\<close> of the frame the transform returns: that
  of the column of \<open>merged_df\<close>. The empty frame of a failed transform has no such column
  and is answered before the column is read.\<close>

definition keeper_round_dtype :: "draft_data option \<Rightarrow> ranking_row list option \<Rightarrow> dtype" where
  "keeper_round_dtype draft_src fantasy_src =
     (case draft_src of
        None \<Rightarrow> Object
      | Some draft \<Rightarrow>
          (case fantasy_src of
             None \<Rightarrow> Object
           | Some fantasy_df \<Rightarrow>
               column_dtype (map calculate_keeper_round
                 (merge_left (map (draft_record (team_to_manager (teams draft))) (draft_picks draft))
                    fantasy_df))))"

text \<open>
  The handler after \<open>df = create_keeper_analysis_dataframe()\<close>; the frame is its rows and
  the dtype of its keeper-round column. An empty frame, which is also what the
  transform returns when it fails, is answered with status 404. With a keeper-round
  column of dtype \<open>object\<close> the difference \<open>keeper_value\<close> is an \<open>object\<close> column too, on which
  \<open>nlargest\<close> raises TypeError: the \<open>except\<close> clause of the handler answers with status 500.
\<close>

definition recommendations_of_frame ::
  "keeper_record list \<Rightarrow> dtype \<Rightarrow> string \<Rightarrow> response" where
  "recommendations_of_frame df keeper_round_column mgr =
     (if df = [] then Failure 404 ''No data available''
      else
        (let manager_df = manager_rows df mgr
         in if manager_df = []
            then Success mgr [] (Some ''No eligible keepers found for this manager'')
            else if keeper_round_column = Object
            then Failure 500 ''Internal server error''
            else
              (let manager_df = map with_keeper_value manager_df;
                   recommendations = nlargest 5 manager_df
               in Success mgr recommendations None)))"

definition api_keeper_recommendations ::
  "draft_data option \<Rightarrow> ranking_row list option \<Rightarrow> string \<Rightarrow> response" where
  "api_keeper_recommendations draft_src fantasy_src mgr =
     recommendations_of_frame (create_keeper_analysis_dataframe draft_src fantasy_src)
       (keeper_round_dtype draft_src fantasy_src) mgr"

text \<open>The rows a response carries: an error body has no recommendations.\<close>

fun returned_rows :: "response \<Rightarrow> recommendation list" where
  "returned_rows (Success m recs msg) = recs"
| "returned_rows (Failure code e) = []"

section \<open>The keeper-status mutator\<close>

text \<open>
  \<open>update_keeper\<close> of \<open>app.py\<close>. The state is the content of \<open>data/draft_results.json\<close>
  (\<open>None\<close>: the file cannot be opened); the command returns the content after it ran
  and what it printed. \<open>json.dump\<close> writes the whole document.
\<close>

datatype report =
    NameRequired
  | NoPlayerFound string
  | MultipleFound "draft_pick list"
  | Updated string bool
  | FileNotFound

text \<open>The loop that assigns \<open>pick['keeper_status'] = new_status\<close> to the first pick of
  the player's name and team, and breaks.\<close>

fun set_keeper_status :: "string \<Rightarrow> int \<Rightarrow> bool \<Rightarrow> draft_pick list \<Rightarrow> draft_pick list" where
  "set_keeper_status name tid new_status [] = []"
| "set_keeper_status name tid new_status (pick # picks) =
     (if pick_player_name pick = name \<and> pick_team_id pick = tid
      then pick\<lparr>pick_keeper_status := new_status\<rparr> # picks
      else pick # set_keeper_status name tid new_status picks)"

definition name_matches :: "string \<Rightarrow> draft_pick \<Rightarrow> bool" where
  "name_matches name pick = str_in (lower name) (lower (pick_player_name pick))"

definition update_keeper :: "string \<Rightarrow> draft_data option \<Rightarrow> draft_data option \<times> report" where
  "update_keeper typed file =
     (let name = strip typed
      in if name = [] then (file, NameRequired)
         else
           (case file of
              None \<Rightarrow> (file, FileNotFound)
            | Some data \<Rightarrow>
                (let matching_players = filter (name_matches name) (draft_picks data)
                 in if matching_players = [] then (file, NoPlayerFound name)
                    else if length matching_players > 1
                    then (file, MultipleFound matching_players)
                    else
                      (let player = hd matching_players;
                           new_status = (\<not> pick_keeper_status player);
                           picks = set_keeper_status (pick_player_name player)
                                     (pick_team_id player) new_status (draft_picks data)
                       in (Some (data\<lparr>draft_picks := picks\<rparr>),
                           Updated (pick_player_name player) new_status)))))"

section \<open>A small league\<close>

text \<open>Two teams, four picks and three ranking rows, used to run the definitions.\<close>

definition ex_teams :: "team list" where
  "ex_teams =
     [\<lparr>team_id = 1, team_name = ''Alpha'', manager = ''Ann'', team_rank = 1, rating = 90,
        level = ''Gold''\<rparr>,
      \<lparr>team_id = 2, team_name = ''Beta'', manager = ''Bob'', team_rank = 2, rating = 80,
        level = ''Silver''\<rparr>]"

definition ex_picks :: "draft_pick list" where
  "ex_picks =
     [\<lparr>pick_player_name = ''Joe Back '', pick_team_id = 1, pick_drafting_team = ''Alpha'',
        pick_round = Some 1, pick_overall_pick = Some 12, pick_keeper_status = False,
        pick_keeper_eligible_2025 = None, pick_waiver_pickup = None\<rparr>,
      \<lparr>pick_player_name = ''Sam Wide'', pick_team_id = 2, pick_drafting_team = ''Beta'',
        pick_round = Some 8, pick_overall_pick = Some 3, pick_keeper_status = True,
        pick_keeper_eligible_2025 = Some True, pick_waiver_pickup = Some True\<rparr>,
      \<lparr>pick_player_name = ''Kick Er'', pick_team_id = 2, pick_drafting_team = ''Beta'',
        pick_round = Some 10, pick_overall_pick = Some 100, pick_keeper_status = False,
        pick_keeper_eligible_2025 = None, pick_waiver_pickup = None\<rparr>,
      \<lparr>pick_player_name = ''No Rank'', pick_team_id = 1, pick_drafting_team = ''Gamma'',
        pick_round = Some 2, pick_overall_pick = Some 1, pick_keeper_status = False,
        pick_keeper_eligible_2025 = None, pick_waiver_pickup = None\<rparr>]"

definition ex_draft :: draft_data where
  "ex_draft =
     \<lparr>draft_info = \<lparr>total_teams = 2, total_rounds = 10, draft_type = ''snake''\<rparr>,
      teams = ex_teams, draft_picks = ex_picks\<rparr>"

definition ex_rankings :: "ranking_row list" where
  "ex_rankings =
     [\<lparr>PLAYER_NAME = ''Joe Back'', RK = Some 13, POS = Some ''RB5''\<rparr>,
      \<lparr>PLAYER_NAME = '' Sam Wide'', RK = Some 12, POS = Some ''WR3''\<rparr>,
      \<lparr>PLAYER_NAME = ''Kick Er'', RK = Some 150, POS = Some ''K1''\<rparr>]"

definition ex_sam :: keeper_record where
  "ex_sam =
     \<lparr>player_name = ''Sam Wide'', manager_2024 = ''Bob'', draft_round_2024 = Some 8,
      overall_pick_2024 = Some 3, keeper_status_2024 = True, keeper_eligible_2025 = True,
      waiver_pickup = True, draft_rank_2025 = Some 12, position_rank_2025 = Some ''WR3'',
      projected_draft_round_2025 = Some 1, keeper_round_2025 = Some 5\<rparr>"

definition ex_joe :: keeper_record where
  "ex_joe =
     \<lparr>player_name = ''Joe Back '', manager_2024 = ''Ann'', draft_round_2024 = Some 1,
      overall_pick_2024 = Some 12, keeper_status_2024 = False, keeper_eligible_2025 = True,
      waiver_pickup = False, draft_rank_2025 = Some 13, position_rank_2025 = Some ''RB5'',
      projected_draft_round_2025 = Some 2, keeper_round_2025 = Some 1\<rparr>"

text \<open>A rankings file in which one trimmed name is on two rows, and one that names
  nobody of the draft.\<close>

definition ex_dup_rankings :: "ranking_row list" where
  "ex_dup_rankings =
     [\<lparr>PLAYER_NAME = ''Joe Back'', RK = Some 13, POS = Some ''RB5''\<rparr>,
      \<lparr>PLAYER_NAME = ''Joe Back '', RK = Some 40, POS = Some ''RB20''\<rparr>]"

definition ex_other_rankings :: "ranking_row list" where
  "ex_other_rankings = [\<lparr>PLAYER_NAME = ''Someone Else'', RK = Some 1, POS = Some ''QB1''\<rparr>]"

definition ex_joe_row :: draft_row where
  "ex_joe_row =
     \<lparr>player_name = ''Joe Back '', manager_2024 = ''Ann'', draft_round_2024 = Some 1,
      overall_pick_2024 = Some 12, keeper_status_2024 = False, keeper_eligible_2025 = True,
      waiver_pickup = False\<rparr>"

text \<open>A draft in which Ann's second player has no draft round and is no waiver pickup.\<close>

definition ex_null_draft :: draft_data where
  "ex_null_draft =
     \<lparr>draft_info = \<lparr>total_teams = 2, total_rounds = 10, draft_type = ''snake''\<rparr>,
      teams = ex_teams,
      draft_picks =
        [\<lparr>pick_player_name = ''Joe Back'', pick_team_id = 1, pick_drafting_team = ''Alpha'',
           pick_round = Some 1, pick_overall_pick = Some 12, pick_keeper_status = False,
           pick_keeper_eligible_2025 = None, pick_waiver_pickup = None\<rparr>,
         \<lparr>pick_player_name = ''New Guy'', pick_team_id = 1, pick_drafting_team = ''Alpha'',
           pick_round = None, pick_overall_pick = Some 50, pick_keeper_status = False,
           pick_keeper_eligible_2025 = None, pick_waiver_pickup = None\<rparr>]\<rparr>"

text \<open>The same draft with the second pick only: no pick has a keeper round.\<close>

definition ex_no_round_draft :: draft_data where
  "ex_no_round_draft = ex_null_draft\<lparr>draft_picks := [draft_picks ex_null_draft ! 1]\<rparr>"

definition ex_null_rankings :: "ranking_row list" where
  "ex_null_rankings =
     [\<lparr>PLAYER_NAME = ''Joe Back'', RK = Some 13, POS = Some ''RB5''\<rparr>,
      \<lparr>PLAYER_NAME = ''New Guy'', RK = Some 30, POS = Some ''WR10''\<rparr>]"

definition ex_null_joe :: recommendation where
  "ex_null_joe =
     \<lparr>player_name = ''Joe Back'', manager_2024 = ''Ann'', draft_round_2024 = Some 1,
      overall_pick_2024 = Some 12, keeper_status_2024 = False, keeper_eligible_2025 = True,
      waiver_pickup = False, draft_rank_2025 = Some 13, position_rank_2025 = Some ''RB5'',
      projected_draft_round_2025 = Some 2, keeper_round_2025 = Some 1,
      keeper_value = Some 1\<rparr>"

definition ex_null_guy :: recommendation where
  "ex_null_guy =
     \<lparr>player_name = ''New Guy'', manager_2024 = ''Ann'', draft_round_2024 = None,
      overall_pick_2024 = Some 50, keeper_status_2024 = False, keeper_eligible_2025 = True,
      waiver_pickup = False, draft_rank_2025 = Some 30, position_rank_2025 = Some ''WR10'',
      projected_draft_round_2025 = Some 3, keeper_round_2025 = None,
      keeper_value = None\<rparr>"

text \<open>A frame of nine rows to run the selector on: name, manager, eligibility, projected
  round and keeper round; the other columns do not matter to it.\<close>

definition board_row :: "string \<Rightarrow> string \<Rightarrow> bool \<Rightarrow> int \<Rightarrow> int option \<Rightarrow> keeper_record" where
  "board_row n m e p k =
     \<lparr>player_name = n, manager_2024 = m, draft_round_2024 = None,
      overall_pick_2024 = None, keeper_status_2024 = False, keeper_eligible_2025 = e,
      waiver_pickup = False, draft_rank_2025 = Some (12 * p), position_rank_2025 = None,
      projected_draft_round_2025 = Some p, keeper_round_2025 = k\<rparr>"

definition ex_board :: "keeper_record list" where
  "ex_board =
     [board_row ''P1'' ''Ann'' True 3 (Some 2),
      board_row ''P2'' ''Ann'' True 6 (Some 2),
      board_row ''P3'' ''Ann'' True 2 (Some 1),
      board_row ''P4'' ''Bob'' True 10 (Some 1),
      board_row ''P5'' ''Ann'' False 9 (Some 1),
      board_row ''P6'' ''Ann'' True 5 (Some 1),
      board_row ''P7'' ''Ann'' True 4 None,
      board_row ''P8'' ''Ann'' True 7 (Some 5),
      board_row ''P9'' ''Ann'' True 4 (Some 3)]"

section \<open>Properties of the transform\<close>

lemma projected_round_Some: "projected_round (Some n) = Some (- ((- n) div 12))"
proof -
  have "\<lfloor>real_of_int (- n) / real_of_int 12\<rfloor> = (- n) div 12"
    by (rule floor_divide_of_int_eq)
  then show ?thesis
    unfolding projected_round_def by (simp add: ceiling_def)
qed

lemmas frame_defs = keeper_analysis_frame_def
    team_to_manager_def draft_record_def merge_left_def merge_one_def matching_rankings_def
    join_row_def strip_def is_space_def derive_def projected_round_Some
    calculate_keeper_round_def not_kicker_or_defense_def has_rank_def astype_str_def
    startswith_def sort_values_overall_pick_def sort_rows_def
    draft_row.extend_def merged_row.extend_def merged_row.fields_def keeper_record.fields_def

lemmas ex_defs = ex_draft_def ex_picks_def ex_teams_def ex_rankings_def ex_sam_def ex_joe_def

lemma ex_frame: "keeper_analysis_frame (Some ex_draft) (Some ex_rankings) = Inr [ex_sam, ex_joe]"
  by (simp add: frame_defs ex_defs Let_def)

lemma ex_dataframe: "create_keeper_analysis_dataframe (Some ex_draft) (Some ex_rankings) = [ex_sam, ex_joe]"
  by (simp add: create_keeper_analysis_dataframe_def ex_frame)

lemma ex_dataframe_app:
  "create_keeper_analysis_dataframe_app (Some ex_draft) (Some ex_rankings) = Some [ex_sam, ex_joe]"
  by (simp add: create_keeper_analysis_dataframe_app_def ex_frame)

subsection \<open>The insertion sort\<close>

lemma mset_insert_row: "mset (insert_row le x xs) = add_mset x (mset xs)"
  by (induction xs) auto

lemma set_insert_row: "set (insert_row le x xs) = insert x (set xs)"
  by (induction xs) auto

lemma mset_sort_rows: "mset (sort_rows le xs) = mset xs"
  unfolding sort_rows_def by (induction xs) (auto simp: mset_insert_row)

lemma set_sort_rows: "set (sort_rows le xs) = set xs"
  using mset_sort_rows [of le xs] by (metis set_mset_mset)

lemma sorted_insert_row:
  assumes total: "\<And>a b. le a b \<or> le b a"
    and trans: "\<And>a b c. le a b \<Longrightarrow> le b c \<Longrightarrow> le a c"
  shows "sorted_wrt le xs \<Longrightarrow> sorted_wrt le (insert_row le x xs)"
proof (induction xs)
  case Nil
  then show ?case by simp
next
  case (Cons y ys)
  show ?case
  proof (cases "le x y")
    case True
    with Cons.prems trans show ?thesis by auto
  next
    case False
    with total have "le y x" by blast
    with Cons False show ?thesis by (auto simp: set_insert_row)
  qed
qed

lemma sorted_sort_rows:
  assumes total: "\<And>a b. le a b \<or> le b a"
    and trans: "\<And>a b c. le a b \<Longrightarrow> le b c \<Longrightarrow> le a c"
  shows "sorted_wrt le (sort_rows le xs)"
  unfolding sort_rows_def
  by (induction xs) (auto intro: sorted_insert_row [OF total trans])



lemma na_last_le_total: "na_last_le a b \<or> na_last_le b a"
  by (cases a; cases b) auto

lemma na_last_le_trans: "na_last_le a b \<Longrightarrow> na_last_le b c \<Longrightarrow> na_last_le a c"
  by (cases a; cases b; cases c) auto

lemma na_last_ge_total: "na_last_ge a b \<or> na_last_ge b a"
  by (cases a; cases b) auto

lemma na_last_ge_trans: "na_last_ge a b \<Longrightarrow> na_last_ge b c \<Longrightarrow> na_last_ge a c"
  by (cases a; cases b; cases c) auto


lemma set_sort_values_overall_pick: "set (sort_values_overall_pick rows) = set rows"
  by (simp add: sort_values_overall_pick_def set_sort_rows)

lemma sorted_sort_values_overall_pick:
  "sorted_wrt na_last_le (map overall_pick_2024 (sort_values_overall_pick rows))"
proof -
  have "sorted_wrt (\<lambda>a b. na_last_le (overall_pick_2024 a) (overall_pick_2024 b))
          (sort_values_overall_pick rows)"
    unfolding sort_values_overall_pick_def
    by (rule sorted_sort_rows) (use na_last_le_total na_last_le_trans in blast)+
  then show ?thesis by (simp add: sorted_wrt_map)
qed

lemma sorted_Some_iff: "sorted_wrt na_last_le (map Some xs) = sorted xs"
  by (induction xs) auto

subsection \<open>What the rows of the output are\<close>

lemma frame_rows:
  assumes "keeper_analysis_frame draft_src fantasy_src = Inr rows"
  obtains merged where
    "rows = sort_values_overall_pick (filter has_rank (filter not_kicker_or_defense (map derive merged)))"
  using assms
  by (auto simp: keeper_analysis_frame_def Let_def split: option.splits if_splits)

lemma output_rows:
  assumes "create_keeper_analysis_dataframe_app draft_src fantasy_src = Some rows
           \<or> create_keeper_analysis_dataframe draft_src fantasy_src = rows"
  shows "rows = [] \<or> keeper_analysis_frame draft_src fantasy_src = Inr rows"
  using assms
  by (auto simp: create_keeper_analysis_dataframe_app_def create_keeper_analysis_dataframe_def
           split: sum.splits)

lemma output_row_derived:
  assumes "create_keeper_analysis_dataframe_app draft_src fantasy_src = Some rows
           \<or> create_keeper_analysis_dataframe draft_src fantasy_src = rows"
    and "row \<in> set rows"
  obtains m where "row = derive m" "has_rank row" "not_kicker_or_defense row"
proof -
  from output_rows [OF assms(1)] assms(2)
  have "keeper_analysis_frame draft_src fantasy_src = Inr rows" by auto
  then obtain merged where
    "rows = sort_values_overall_pick (filter has_rank (filter not_kicker_or_defense (map derive merged)))"
    by (rule frame_rows)
  with assms(2) have "row \<in> set (filter has_rank (filter not_kicker_or_defense (map derive merged)))"
    by (simp only: set_sort_values_overall_pick)
  then show ?thesis using that by auto
qed

lemma derive_fields:
  "waiver_pickup (derive m) = waiver_pickup m"
  "draft_round_2024 (derive m) = draft_round_2024 m"
  "draft_rank_2025 (derive m) = draft_rank_2025 m"
  "keeper_round_2025 (derive m) = calculate_keeper_round m"
  "projected_draft_round_2025 (derive m) = projected_round (draft_rank_2025 m)"
  by (simp_all add: derive_def merged_row.extend_def keeper_record.fields_def)

section \<open>Derived columns of the output\<close>

text \<open>
  C1. In every row of the output of the transform (the frame returned by either entry
  point), \<open>keeper_round_2025\<close> is 5 when \<open>waiver_pickup\<close> is true, whatever the other
  fields are; otherwise it is \<open>max(1, draft_round - 1)\<close> when the 2024 draft round is
  present; otherwise it is missing.
\<close>

theorem keeper_round_by_cases:
  assumes "create_keeper_analysis_dataframe_app draft_src fantasy_src = Some rows
           \<or> create_keeper_analysis_dataframe draft_src fantasy_src = rows"
    and "row \<in> set rows"
  shows "keeper_round_2025 row =
           (if waiver_pickup row then Some 5
            else (case draft_round_2024 row of
                    Some r \<Rightarrow> Some (max 1 (r - 1))
                  | None \<Rightarrow> None))"
proof -
  from assms obtain m where "row = derive m"
    by (rule output_row_derived)
  then show ?thesis
    by (simp add: derive_fields calculate_keeper_round_def)
qed

theorem keeper_round_by_cases_witness:
  "create_keeper_analysis_dataframe (Some ex_draft) (Some ex_rankings) = [ex_sam, ex_joe]
   \<and> waiver_pickup ex_sam \<and> draft_round_2024 ex_sam = Some 8 \<and> keeper_round_2025 ex_sam = Some 5
   \<and> \<not> waiver_pickup ex_joe \<and> draft_round_2024 ex_joe = Some 1 \<and> keeper_round_2025 ex_joe = Some 1"
  using keeper_round_by_cases [of "Some ex_draft" "Some ex_rankings" "[ex_sam, ex_joe]" ex_sam]
    keeper_round_by_cases [of "Some ex_draft" "Some ex_rankings" "[ex_sam, ex_joe]" ex_joe]
  by (simp add: ex_dataframe) (simp add: ex_sam_def ex_joe_def)

text \<open>
  C2. In every row of the output of the transform, \<open>projected_round_2025\<close> is
  \<open>ceil(draft_rank_2025 / 12)\<close> when the 2025 draft rank is present and missing otherwise;
  so a rank of 13 gives round 2 and a rank of 12 gives round 1.
\<close>

theorem projected_round_is_ceiling:
  assumes "create_keeper_analysis_dataframe_app draft_src fantasy_src = Some rows
           \<or> create_keeper_analysis_dataframe draft_src fantasy_src = rows"
    and "row \<in> set rows"
  shows "projected_draft_round_2025 row =
           (case draft_rank_2025 row of
              Some n \<Rightarrow> Some \<lceil>real_of_int n / 12\<rceil>
            | None \<Rightarrow> None)
         \<and> (draft_rank_2025 row = Some 13 \<longrightarrow> projected_draft_round_2025 row = Some 2)
         \<and> (draft_rank_2025 row = Some 12 \<longrightarrow> projected_draft_round_2025 row = Some 1)"
proof -
  from assms obtain m where "row = derive m"
    by (rule output_row_derived)
  then have eq: "projected_draft_round_2025 row = projected_round (draft_rank_2025 row)"
    by (simp add: derive_fields)
  show ?thesis
    unfolding eq by (simp add: projected_round_Some) (simp add: projected_round_def)
qed

theorem projected_round_is_ceiling_witness:
  "create_keeper_analysis_dataframe_app (Some ex_draft) (Some ex_rankings) = Some [ex_sam, ex_joe]
   \<and> draft_rank_2025 ex_joe = Some 13 \<and> projected_draft_round_2025 ex_joe = Some 2
   \<and> draft_rank_2025 ex_sam = Some 12 \<and> projected_draft_round_2025 ex_sam = Some 1"
  using projected_round_is_ceiling [of "Some ex_draft" "Some ex_rankings" "[ex_sam, ex_joe]" ex_joe]
    projected_round_is_ceiling [of "Some ex_draft" "Some ex_rankings" "[ex_sam, ex_joe]" ex_sam]
  by (simp add: ex_dataframe_app) (simp add: ex_sam_def ex_joe_def)

section \<open>Filters and order of the output\<close>

text \<open>
  C5. No row of the output of the transform has a \<open>position_rank_2025\<close> that begins
  with K or DST, and every row of the output has a \<open>draft_rank_2025\<close>: a pick without a
  2025 ranking is not in the output.
\<close>

theorem output_excludes_kickers_defenses_unranked:
  assumes "create_keeper_analysis_dataframe_app draft_src fantasy_src = Some rows
           \<or> create_keeper_analysis_dataframe draft_src fantasy_src = rows"
    and "row \<in> set rows"
  shows "draft_rank_2025 row \<noteq> None
         \<and> (\<forall>s. position_rank_2025 row = Some s \<longrightarrow>
                \<not> startswith s ''K'' \<and> \<not> startswith s ''DST'')"
proof -
  from assms obtain m where "has_rank row" "not_kicker_or_defense row"
    by (rule output_row_derived)
  then show ?thesis
    by (auto simp: has_rank_def not_kicker_or_defense_def astype_str_def)
qed

theorem output_excludes_kickers_defenses_unranked_witness:
  "create_keeper_analysis_dataframe (Some ex_draft) (Some ex_rankings) = [ex_sam, ex_joe]
   \<and> draft_rank_2025 ex_sam = Some 12 \<and> position_rank_2025 ex_sam = Some ''WR3''
   \<and> \<not> startswith ''WR3'' ''K'' \<and> \<not> startswith ''WR3'' ''DST''
   \<and> length (draft_picks ex_draft) = 4"
  using output_excludes_kickers_defenses_unranked
          [of "Some ex_draft" "Some ex_rankings" "[ex_sam, ex_joe]" ex_sam]
  by (simp add: ex_dataframe) (simp add: ex_sam_def ex_draft_def ex_picks_def startswith_def)

text \<open>
  C6. The \<open>overall_pick\<close> values of the output rows, read in output order, never
  decrease: the output is sorted ascending by \<open>overall_pick\<close>. (Rows without an
  \<open>overall_pick\<close>, which a valid draft file does not have, come last.)
\<close>

theorem output_sorted_by_overall_pick:
  assumes "create_keeper_analysis_dataframe_app draft_src fantasy_src = Some rows
           \<or> create_keeper_analysis_dataframe draft_src fantasy_src = rows"
  shows "sorted_wrt na_last_le (map overall_pick_2024 rows)
         \<and> (\<forall>picks. map overall_pick_2024 rows = map Some picks \<longrightarrow> sorted picks)"
proof -
  have s: "sorted_wrt na_last_le (map overall_pick_2024 rows)"
  proof (cases "rows = []")
    case True
    then show ?thesis by simp
  next
    case False
    with output_rows [OF assms]
    have "keeper_analysis_frame draft_src fantasy_src = Inr rows" by simp
    then obtain merged where
      "rows = sort_values_overall_pick
                (filter has_rank (filter not_kicker_or_defense (map derive merged)))"
      by (rule frame_rows)
    then show ?thesis
      by (simp only: sorted_sort_values_overall_pick)
  qed
  then show ?thesis
    by (auto simp: sorted_Some_iff)
qed

theorem output_sorted_by_overall_pick_witness:
  "create_keeper_analysis_dataframe (Some ex_draft) (Some ex_rankings) = [ex_sam, ex_joe]
   \<and> map overall_pick_2024 [ex_sam, ex_joe] = map Some [3, 12]
   \<and> map pick_overall_pick (draft_picks ex_draft) = map Some [12, 3, 100, 1]
   \<and> sorted [3, 12 :: int]"
  using output_sorted_by_overall_pick [of "Some ex_draft" "Some ex_rankings" "[ex_sam, ex_joe]"]
  by (simp add: ex_dataframe) (simp add: ex_sam_def ex_joe_def ex_draft_def ex_picks_def)

section \<open>The left join\<close>

lemma truncate_join_row: "draft_row.truncate (join_row d r p) = d"
  by (simp add: join_row_def draft_row.truncate_def draft_row.extend_def)

lemma join_row_fields:
  "draft_rank_2025 (join_row d r p) = r"
  "position_rank_2025 (join_row d r p) = p"
  "player_name (join_row d r p) = player_name d"
  by (simp_all add: join_row_def draft_row.extend_def merged_row.fields_def)

lemma truncate_merge_one:
  "map draft_row.truncate (merge_one rs d) =
     replicate (max 1 (length (matching_rankings rs d))) d"
proof (cases "matching_rankings rs d")
  case Nil
  then show ?thesis by (simp add: merge_one_def truncate_join_row)
next
  case (Cons r ms)
  have "map draft_row.truncate (map (\<lambda>r. join_row d (RK r) (POS r)) (r # ms)) =
        replicate (length (r # ms)) d"
    by (simp add: truncate_join_row map_replicate_const comp_def)
  with Cons show ?thesis by (simp add: merge_one_def)
qed

lemma truncate_merge_left:
  "map draft_row.truncate (merge_left ds rs) =
     concat (map (\<lambda>d. replicate (max 1 (length (matching_rankings rs d))) d) ds)"
  by (induction ds) (simp_all add: merge_left_def truncate_merge_one)

lemma distinct_key_filter_le1:
  "distinct (map f xs) \<Longrightarrow> length (filter (\<lambda>x. f x = k) xs) \<le> 1"
proof (induction xs)
  case Nil
  show ?case by simp
next
  case (Cons x xs)
  show ?case
  proof (cases "f x = k")
    case True
    from Cons.prems have "f x \<notin> f ` set xs" by simp
    then have "\<forall>y \<in> set xs. f y \<noteq> f x" by (metis imageI)
    with True have "filter (\<lambda>y. f y = k) xs = []"
      by (simp add: filter_empty_conv)
    with True show ?thesis by simp
  next
    case False
    with Cons show ?thesis by simp
  qed
qed

lemma unmatched_row_has_nulls:
  assumes "m \<in> set (merge_left ds rs)"
    and "\<forall>r \<in> set rs. strip (PLAYER_NAME r) \<noteq> strip (player_name m)"
  shows "draft_rank_2025 m = None \<and> position_rank_2025 m = None"
proof -
  from assms(1) obtain d where d: "d \<in> set ds" "m \<in> set (merge_one rs d)"
    by (auto simp: merge_left_def)
  have name: "player_name m = player_name d"
    using d(2) by (auto simp: merge_one_def join_row_fields split: list.splits)
  with assms(2) have "matching_rankings rs d = []"
    by (auto simp: matching_rankings_def filter_empty_conv)
  with d(2) show ?thesis
    by (simp add: merge_one_def join_row_fields)
qed

text \<open>
  C4, as the code has it. In the left join a DraftPick appears once for every
  RankingRow of its trimmed name, and once when there is none; so every DraftPick
  appears exactly once, in the order of the picks, when no trimmed player name is on
  two rows of the rankings source. A joined row whose trimmed name is on no row of the
  rankings source has null ranking fields.
\<close>

theorem left_join_once_per_matching_ranking:
  "map draft_row.truncate (merge_left ds rs) =
     concat (map (\<lambda>d. replicate (max 1 (length (matching_rankings rs d))) d) ds)
   \<and> (distinct (map (\<lambda>r. strip (PLAYER_NAME r)) rs) \<longrightarrow>
        map draft_row.truncate (merge_left ds rs) = ds)
   \<and> (\<forall>m \<in> set (merge_left ds rs).
        (\<forall>r \<in> set rs. strip (PLAYER_NAME r) \<noteq> strip (player_name m)) \<longrightarrow>
        draft_rank_2025 m = None \<and> position_rank_2025 m = None)"
proof (intro conjI impI ballI)
  show "map draft_row.truncate (merge_left ds rs) =
     concat (map (\<lambda>d. replicate (max 1 (length (matching_rankings rs d))) d) ds)"
    by (rule truncate_merge_left)
next
  assume dist: "distinct (map (\<lambda>r. strip (PLAYER_NAME r)) rs)"
  have one: "replicate (max 1 (length (matching_rankings rs d))) d = [d]" for d
  proof -
    have "length (matching_rankings rs d) \<le> 1"
      using distinct_key_filter_le1 [OF dist, of "strip (player_name d)"]
      by (simp add: matching_rankings_def)
    then have "max 1 (length (matching_rankings rs d)) = Suc 0" by simp
    then show ?thesis by (simp only: replicate.simps)
  qed
  have "concat (map (\<lambda>d. [d]) xs) = xs" for xs :: "draft_row list"
    by (induction xs) simp_all
  then show "map draft_row.truncate (merge_left ds rs) = ds"
    by (simp only: truncate_merge_left one)
next
  fix m
  assume "m \<in> set (merge_left ds rs)"
    and "\<forall>r \<in> set rs. strip (PLAYER_NAME r) \<noteq> strip (player_name m)"
  then show "draft_rank_2025 m = None" and "position_rank_2025 m = None"
    using unmatched_row_has_nulls by blast+
qed

lemma ex_merge:
  "merge_left (map (draft_record (team_to_manager ex_teams)) ex_picks) ex_rankings =
     [join_row (draft_record (team_to_manager ex_teams) (ex_picks ! 0)) (Some 13) (Some ''RB5''),
      join_row (draft_record (team_to_manager ex_teams) (ex_picks ! 1)) (Some 12) (Some ''WR3''),
      join_row (draft_record (team_to_manager ex_teams) (ex_picks ! 2)) (Some 150) (Some ''K1''),
      join_row (draft_record (team_to_manager ex_teams) (ex_picks ! 3)) None None]"
  by (simp add: merge_left_def merge_one_def matching_rankings_def ex_picks_def ex_rankings_def
        draft_record_def strip_def is_space_def)

theorem left_join_once_per_matching_ranking_witness:
  "distinct (map (\<lambda>r. strip (PLAYER_NAME r)) ex_rankings)
   \<and> map draft_row.truncate
       (merge_left (map (draft_record (team_to_manager ex_teams)) ex_picks) ex_rankings) =
     map (draft_record (team_to_manager ex_teams)) ex_picks
   \<and> length (merge_left (map (draft_record (team_to_manager ex_teams)) ex_picks) ex_rankings) = 4
   \<and> map (\<lambda>r. strip (PLAYER_NAME r)) ex_rankings = [''Joe Back'', ''Sam Wide'', ''Kick Er'']
   \<and> draft_rank_2025
       (merge_left (map (draft_record (team_to_manager ex_teams)) ex_picks) ex_rankings ! 3) = None
   \<and> position_rank_2025
       (merge_left (map (draft_record (team_to_manager ex_teams)) ex_picks) ex_rankings ! 3) = None"
proof -
  have d: "distinct (map (\<lambda>r. strip (PLAYER_NAME r)) ex_rankings)"
    by (simp add: ex_rankings_def strip_def is_space_def)
  have u: "map (\<lambda>r. strip (PLAYER_NAME r)) ex_rankings = [''Joe Back'', ''Sam Wide'', ''Kick Er'']"
    by (simp add: ex_rankings_def strip_def is_space_def)
  from left_join_once_per_matching_ranking
         [of "map (draft_record (team_to_manager ex_teams)) ex_picks" ex_rankings] d
  have t: "map draft_row.truncate
       (merge_left (map (draft_record (team_to_manager ex_teams)) ex_picks) ex_rankings) =
     map (draft_record (team_to_manager ex_teams)) ex_picks"
    by blast
  show ?thesis
    using d u t by (simp add: ex_merge join_row_fields)
qed

text \<open>
  C4 as stated fails where a trimmed name is on two rows of the rankings source: the
  one pick of Joe Back is joined to both rows and appears twice in the joined set, and
  twice in the output of the transform.
\<close>

theorem left_join_duplicates_pick_counterexample:
  "map draft_row.truncate (merge_left [ex_joe_row] ex_dup_rankings) = [ex_joe_row, ex_joe_row]
   \<and> map draft_rank_2025 (merge_left [ex_joe_row] ex_dup_rankings) = [Some 13, Some 40]
   \<and> map player_name
       (create_keeper_analysis_dataframe
          (Some (ex_draft\<lparr>draft_picks := [ex_picks ! 0]\<rparr>)) (Some ex_dup_rankings)) =
     [''Joe Back '', ''Joe Back '']"
  by (simp add: create_keeper_analysis_dataframe_def frame_defs ex_defs ex_dup_rankings_def
        ex_joe_row_def draft_row.truncate_def Let_def)

section \<open>Properties of the recommendation selector\<close>

lemma truncate_with_keeper_value: "keeper_record.truncate (with_keeper_value r) = r"
  by (simp add: with_keeper_value_def keeper_record.truncate_def keeper_record.extend_def)

lemma with_keeper_value_fields:
  "keeper_value (with_keeper_value r) =
     column_minus (projected_draft_round_2025 r) (keeper_round_2025 r)"
  "projected_draft_round_2025 (with_keeper_value r) = projected_draft_round_2025 r"
  "keeper_round_2025 (with_keeper_value r) = keeper_round_2025 r"
  "manager_2024 (with_keeper_value r) = manager_2024 r"
  "keeper_eligible_2025 (with_keeper_value r) = keeper_eligible_2025 r"
  by (simp_all add: with_keeper_value_def keeper_record.extend_def recommendation.fields_def)

lemma column_minus_None_iff: "column_minus a b = None \<longleftrightarrow> a = None \<or> b = None"
  by (cases a; cases b) auto

text \<open>With a keeper-round column of numbers, the rows of every answer are the first
  five of the ranking of the manager's eligible rows; an error body and the answer for
  no eligible row carry none.\<close>

lemma returned_rows_ranked:
  "returned_rows (recommendations_of_frame df Number mgr) =
     take 5 (sort_values_keeper_value_desc (map with_keeper_value (manager_rows df mgr)))"
proof (cases "df = [] \<or> manager_rows df mgr = []")
  case True
  then have "manager_rows df mgr = []"
    by (auto simp: manager_rows_def)
  with True show ?thesis
    by (auto simp: recommendations_of_frame_def sort_values_keeper_value_desc_def sort_rows_def)
next
  case False
  then show ?thesis
    by (simp add: recommendations_of_frame_def nlargest_def Let_def)
qed

lemma returned_rows_object: "returned_rows (recommendations_of_frame df Object mgr) = []"
  by (simp add: recommendations_of_frame_def Let_def)

lemma mset_ranked: "mset (sort_values_keeper_value_desc rows) = mset rows"
  by (simp add: sort_values_keeper_value_desc_def mset_sort_rows)

lemma sorted_ranked:
  "sorted_wrt (\<lambda>a b. na_last_ge (keeper_value a) (keeper_value b))
     (sort_values_keeper_value_desc rows)"
  unfolding sort_values_keeper_value_desc_def
  by (rule sorted_sort_rows) (use na_last_ge_total na_last_ge_trans in blast)+



lemma ex_board_answer:
  "map (\<lambda>x. (player_name x, keeper_value x))
     (returned_rows (recommendations_of_frame ex_board Number ''Ann'')) =
   [(''P2'', Some 4), (''P6'', Some 4), (''P8'', Some 2), (''P1'', Some 1), (''P3'', Some 1)]"
  by (simp add: recommendations_of_frame_def manager_rows_def ex_board_def board_row_def
        with_keeper_value_def nlargest_def sort_values_keeper_value_desc_def sort_rows_def
        keeper_record.extend_def recommendation.fields_def Let_def)


section \<open>No eligible keeper, and no data\<close>

text \<open>
  C7, as the code has it. When the frame the transform returns is not empty and no
  row of it is a row of the given manager with \<open>keeper_eligible_2025\<close> true, the
  selector answers with success status and an empty recommendations list, which is
  not the data-unavailable answer. An empty frame gets the data-unavailable answer,
  whether the transform failed or returned no row.
\<close>

theorem no_eligible_keeper_is_success:
  assumes "create_keeper_analysis_dataframe draft_src fantasy_src \<noteq> []"
    and "\<forall>r \<in> set (create_keeper_analysis_dataframe draft_src fantasy_src).
           \<not> (manager_2024 r = mgr \<and> keeper_eligible_2025 r)"
  shows "api_keeper_recommendations draft_src fantasy_src mgr =
           Success mgr [] (Some ''No eligible keepers found for this manager'')
         \<and> api_keeper_recommendations draft_src fantasy_src mgr \<noteq>
             api_keeper_recommendations None None mgr
         \<and> (\<forall>d f. create_keeper_analysis_dataframe d f = [] \<longrightarrow>
               api_keeper_recommendations d f mgr = Failure 404 ''No data available'')"
proof -
  from assms(2) have "manager_rows (create_keeper_analysis_dataframe draft_src fantasy_src) mgr = []"
    by (auto simp: manager_rows_def filter_empty_conv)
  with assms(1) have 1: "api_keeper_recommendations draft_src fantasy_src mgr =
           Success mgr [] (Some ''No eligible keepers found for this manager'')"
    by (simp add: api_keeper_recommendations_def recommendations_of_frame_def)
  have 2: "api_keeper_recommendations d f mgr = Failure 404 ''No data available''"
    if "create_keeper_analysis_dataframe d f = []" for d f
    using that by (simp add: api_keeper_recommendations_def recommendations_of_frame_def)
  have "create_keeper_analysis_dataframe None None = []"
    by (simp add: create_keeper_analysis_dataframe_def keeper_analysis_frame_def)
  then have "api_keeper_recommendations None None mgr = Failure 404 ''No data available''"
    by (rule 2)
  with 1 2 show ?thesis by simp
qed

theorem no_eligible_keeper_is_success_witness:
  "create_keeper_analysis_dataframe (Some ex_draft) (Some ex_rankings) = [ex_sam, ex_joe]
   \<and> manager_2024 ex_sam \<noteq> ''Zed'' \<and> manager_2024 ex_joe \<noteq> ''Zed''
   \<and> api_keeper_recommendations (Some ex_draft) (Some ex_rankings) ''Zed'' =
       Success ''Zed'' [] (Some ''No eligible keepers found for this manager'')
   \<and> api_keeper_recommendations None None ''Zed'' = Failure 404 ''No data available''"
  using no_eligible_keeper_is_success [of "Some ex_draft" "Some ex_rankings" "''Zed''"]
  by (simp add: ex_dataframe)
     (simp add: ex_sam_def ex_joe_def create_keeper_analysis_dataframe_def
        keeper_analysis_frame_def)

text \<open>
  C7 as stated fails where the transform succeeds with no row: the rankings name
  nobody of the draft, the transform returns an empty frame without raising, Ann has
  no eligible row, and the selector answers exactly as it does when the sources
  cannot be read.
\<close>

theorem empty_success_looks_unavailable_counterexample:
  "keeper_analysis_frame (Some ex_draft) (Some ex_other_rankings) = Inr []
   \<and> create_keeper_analysis_dataframe_app (Some ex_draft) (Some ex_other_rankings) = Some []
   \<and> api_keeper_recommendations (Some ex_draft) (Some ex_other_rankings) ''Ann'' =
       Failure 404 ''No data available''
   \<and> api_keeper_recommendations None None ''Ann'' = Failure 404 ''No data available''"
  by (simp add: api_keeper_recommendations_def recommendations_of_frame_def
        create_keeper_analysis_dataframe_def create_keeper_analysis_dataframe_app_def
        frame_defs ex_defs ex_other_rankings_def Let_def)

section \<open>Rows without a keeper round\<close>

lemma sorted_wrt_split:
  assumes "sorted_wrt (\<lambda>a b. P b \<longrightarrow> P a) xs"
  shows "xs = filter P xs @ filter (\<lambda>x. \<not> P x) xs"
  using assms
proof (induction xs)
  case Nil
  show ?case by simp
next
  case (Cons y ys)
  show ?case
  proof (cases "P y")
    case True
    with Cons show ?thesis by simp
  next
    case False
    with Cons.prems have "\<forall>b \<in> set ys. \<not> P b" by auto
    then have "filter P ys = []" "filter (\<lambda>x. \<not> P x) ys = ys"
      by (simp_all add: filter_empty_conv)
    with False show ?thesis by simp
  qed
qed

lemma na_last_ge_Some_first: "na_last_ge a b \<Longrightarrow> b \<noteq> None \<Longrightarrow> a \<noteq> None"
  by (cases a; cases b) auto

lemma take_all_valued:
  assumes "sorted_wrt (\<lambda>a b. P b \<longrightarrow> P a) xs" and "n \<le> length (filter P xs)"
    and "x \<in> set (take n xs)"
  shows "P x"
proof -
  from sorted_wrt_split [OF assms(1)]
  have "take n xs = take n (filter P xs @ filter (\<lambda>x. \<not> P x) xs)" by simp
  also have "\<dots> = take n (filter P xs)"
    using assms(2) by simp
  finally have "x \<in> set (filter P xs)"
    using assms(3) by (metis in_set_takeD)
  then show ?thesis by simp
qed

lemma set_ranked: "set (sort_values_keeper_value_desc rows) = set rows"
  by (simp add: sort_values_keeper_value_desc_def set_sort_rows)

lemma length_ranked: "length (sort_values_keeper_value_desc rows) = length rows"
  using mset_ranked [of rows] by (rule mset_eq_length)

lemma ranked_valued_first:
  "sorted_wrt (\<lambda>a b. keeper_value b \<noteq> None \<longrightarrow> keeper_value a \<noteq> None)
     (sort_values_keeper_value_desc rows)"
proof (rule sorted_wrt_mono_rel [OF _ sorted_ranked])
  fix a b :: recommendation
  assume "na_last_ge (keeper_value a) (keeper_value b)"
  then show "keeper_value b \<noteq> None \<longrightarrow> keeper_value a \<noteq> None"
    using na_last_ge_Some_first by blast
qed

lemma length_valued_ranked:
  "length (filter (\<lambda>x. keeper_value x \<noteq> None) (sort_values_keeper_value_desc rows)) =
   length (filter (\<lambda>x. keeper_value x \<noteq> None) rows)"
proof -
  have "mset (filter (\<lambda>x. keeper_value x \<noteq> None) (sort_values_keeper_value_desc rows)) =
        mset (filter (\<lambda>x. keeper_value x \<noteq> None) rows)"
    by (simp only: mset_filter mset_ranked)
  then show ?thesis by (rule mset_eq_length)
qed

lemma ranked_keeper_value:
  assumes "x \<in> set (sort_values_keeper_value_desc (map with_keeper_value rows))"
  shows "keeper_value x = column_minus (projected_draft_round_2025 x) (keeper_round_2025 x)"
proof -
  from assms obtain r where "x = with_keeper_value r"
    by (auto simp: set_ranked)
  then show ?thesis by (simp add: with_keeper_value_fields)
qed

lemma length_valued_rows:
  "length (filter (\<lambda>x. keeper_value x \<noteq> None) (map with_keeper_value rows)) =
   length (filter (\<lambda>r. projected_draft_round_2025 r \<noteq> None \<and> keeper_round_2025 r \<noteq> None) rows)"
  by (induction rows) (simp_all add: with_keeper_value_fields column_minus_None_iff)

lemma truncate_ranked:
  "mset (map keeper_record.truncate (sort_values_keeper_value_desc (map with_keeper_value rows))) =
   mset rows"
proof -
  have "map keeper_record.truncate (map with_keeper_value rows) = rows"
    by (induction rows) (simp_all add: truncate_with_keeper_value)
  then have "mset rows = image_mset keeper_record.truncate (mset (map with_keeper_value rows))"
    by (metis mset_map)
  also have "\<dots> = image_mset keeper_record.truncate
      (mset (sort_values_keeper_value_desc (map with_keeper_value rows)))"
    by (simp only: mset_ranked)
  finally show ?thesis by (simp only: mset_map)
qed

lemma ranked_answer_of_numbers:
  "(\<forall>x \<in> set (returned_rows (recommendations_of_frame df Number mgr)).
       keeper_round_2025 x = None \<longrightarrow> keeper_value x = None)
   \<and> sorted_wrt (\<lambda>a b. keeper_value b \<noteq> None \<longrightarrow> keeper_value a \<noteq> None)
       (returned_rows (recommendations_of_frame df Number mgr))
   \<and> (5 \<le> length (filter (\<lambda>r. projected_draft_round_2025 r \<noteq> None \<and> keeper_round_2025 r \<noteq> None)
                     (manager_rows df mgr)) \<longrightarrow>
       (\<forall>x \<in> set (returned_rows (recommendations_of_frame df Number mgr)).
          keeper_value x \<noteq> None \<and> keeper_round_2025 x \<noteq> None))
   \<and> (length (manager_rows df mgr) \<le> 5 \<longrightarrow>
       mset (map keeper_record.truncate (returned_rows (recommendations_of_frame df Number mgr))) =
       mset (manager_rows df mgr))"
proof -
  define S where "S = sort_values_keeper_value_desc (map with_keeper_value (manager_rows df mgr))"
  define R where "R = returned_rows (recommendations_of_frame df Number mgr)"
  have ret: "R = take 5 S"
    unfolding R_def S_def by (rule returned_rows_ranked)
  have val: "keeper_value x = column_minus (projected_draft_round_2025 x) (keeper_round_2025 x)"
    if "x \<in> set S" for x
    using that unfolding S_def by (rule ranked_keeper_value)
  have srt: "sorted_wrt (\<lambda>a b. keeper_value b \<noteq> None \<longrightarrow> keeper_value a \<noteq> None) S"
    unfolding S_def by (rule ranked_valued_first)
  have 1: "\<forall>x \<in> set R. keeper_round_2025 x = None \<longrightarrow> keeper_value x = None"
  proof (intro ballI impI)
    fix x assume xr: "x \<in> set R" and n: "keeper_round_2025 x = None"
    from xr have "x \<in> set S" unfolding ret by (rule in_set_takeD)
    from val [OF this] n show "keeper_value x = None"
      by (simp add: column_minus_None_iff)
  qed
  have 2: "sorted_wrt (\<lambda>a b. keeper_value b \<noteq> None \<longrightarrow> keeper_value a \<noteq> None) R"
    unfolding ret using srt by (rule sorted_wrt_take)
  have 3: "5 \<le> length (filter (\<lambda>r. projected_draft_round_2025 r \<noteq> None \<and> keeper_round_2025 r \<noteq> None)
                     (manager_rows df mgr)) \<longrightarrow>
       (\<forall>x \<in> set R. keeper_value x \<noteq> None \<and> keeper_round_2025 x \<noteq> None)"
  proof (intro impI ballI)
    fix x
    assume five: "5 \<le> length (filter (\<lambda>r. projected_draft_round_2025 r \<noteq> None \<and> keeper_round_2025 r \<noteq> None)
                     (manager_rows df mgr))"
      and x: "x \<in> set R"
    have "length (filter (\<lambda>x. keeper_value x \<noteq> None) S) =
          length (filter (\<lambda>r. projected_draft_round_2025 r \<noteq> None \<and> keeper_round_2025 r \<noteq> None)
                     (manager_rows df mgr))"
      unfolding S_def by (simp only: length_valued_ranked length_valued_rows)
    with five have n: "5 \<le> length (filter (\<lambda>x. keeper_value x \<noteq> None) S)" by simp
    from x have x5: "x \<in> set (take 5 S)" by (simp only: ret)
    from take_all_valued [OF srt n x5] have v: "keeper_value x \<noteq> None" .
    from x5 have "x \<in> set S" by (rule in_set_takeD)
    from val [OF this] v have "keeper_round_2025 x \<noteq> None"
      by (simp add: column_minus_None_iff)
    with v show "keeper_value x \<noteq> None \<and> keeper_round_2025 x \<noteq> None" by simp
  qed
  have 4: "length (manager_rows df mgr) \<le> 5 \<longrightarrow>
       mset (map keeper_record.truncate R) = mset (manager_rows df mgr)"
  proof
    assume le: "length (manager_rows df mgr) \<le> 5"
    have "length S = length (manager_rows df mgr)"
      unfolding S_def by (simp only: length_ranked length_map)
    with le have "take 5 S = S" by simp
    then show "mset (map keeper_record.truncate R) = mset (manager_rows df mgr)"
      unfolding ret S_def by (simp only: truncate_ranked)
  qed
  from 1 2 3 4 show ?thesis
    unfolding R_def by (intro conjI)
qed

text \<open>
  C10, as the code has it. A returned row without a \<open>keeper_round_2025\<close> has no
  \<open>keeper_value\<close>; in the answer no row without a \<open>keeper_value\<close> stands before a row
  with one; such a row is not returned when five or more eligible rows of the manager
  have a \<open>keeper_value\<close>; and when the keeper-round column is a column of numbers (some
  pick of the draft is a waiver pickup or has a draft round) and the manager has at
  most five eligible rows, all of them are returned, those without a keeper round too.
\<close>

theorem null_keeper_round_ranks_last:
  "(\<forall>x \<in> set (returned_rows (recommendations_of_frame df dt mgr)).
       keeper_round_2025 x = None \<longrightarrow> keeper_value x = None)
   \<and> sorted_wrt (\<lambda>a b. keeper_value b \<noteq> None \<longrightarrow> keeper_value a \<noteq> None)
       (returned_rows (recommendations_of_frame df dt mgr))
   \<and> (5 \<le> length (filter (\<lambda>r. projected_draft_round_2025 r \<noteq> None \<and> keeper_round_2025 r \<noteq> None)
                     (manager_rows df mgr)) \<longrightarrow>
       (\<forall>x \<in> set (returned_rows (recommendations_of_frame df dt mgr)).
          keeper_value x \<noteq> None \<and> keeper_round_2025 x \<noteq> None))
   \<and> (dt = Number \<and> length (manager_rows df mgr) \<le> 5 \<longrightarrow>
       mset (map keeper_record.truncate (returned_rows (recommendations_of_frame df dt mgr))) =
       mset (manager_rows df mgr))"
proof (cases dt)
  case Number
  show ?thesis
    unfolding Number using ranked_answer_of_numbers [of df mgr] by simp
next
  case Object
  show ?thesis
    unfolding Object by (simp add: returned_rows_object)
qed

lemma ex_null_answer:
  "api_keeper_recommendations (Some ex_null_draft) (Some ex_null_rankings) ''Ann'' =
     Success ''Ann'' [ex_null_joe, ex_null_guy] None"
  by (simp add: api_keeper_recommendations_def recommendations_of_frame_def manager_rows_def
        keeper_round_dtype_def column_dtype_def
        create_keeper_analysis_dataframe_def frame_defs ex_null_draft_def ex_null_rankings_def
        ex_teams_def ex_null_joe_def ex_null_guy_def
        with_keeper_value_def nlargest_def sort_values_keeper_value_desc_def
        keeper_record.extend_def recommendation.fields_def Let_def)

lemma ex_board_rows:
  "manager_rows ex_board ''Ann'' =
     [board_row ''P1'' ''Ann'' True 3 (Some 2), board_row ''P2'' ''Ann'' True 6 (Some 2),
      board_row ''P3'' ''Ann'' True 2 (Some 1), board_row ''P6'' ''Ann'' True 5 (Some 1),
      board_row ''P7'' ''Ann'' True 4 None, board_row ''P8'' ''Ann'' True 7 (Some 5),
      board_row ''P9'' ''Ann'' True 4 (Some 3)]"
  by (simp add: manager_rows_def ex_board_def board_row_def)

theorem null_keeper_round_ranks_last_witness:
  "map player_name (manager_rows ex_board ''Ann'') =
     [''P1'', ''P2'', ''P3'', ''P6'', ''P7'', ''P8'', ''P9'']
   \<and> map keeper_round_2025 (manager_rows ex_board ''Ann'') =
     [Some 2, Some 2, Some 1, Some 1, None, Some 5, Some 3]
   \<and> length (filter (\<lambda>r. projected_draft_round_2025 r \<noteq> None \<and> keeper_round_2025 r \<noteq> None)
               (manager_rows ex_board ''Ann'')) = 6
   \<and> map player_name (returned_rows (recommendations_of_frame ex_board Number ''Ann'')) =
     [''P2'', ''P6'', ''P8'', ''P1'', ''P3'']
   \<and> list_all (\<lambda>x. keeper_value x \<noteq> None \<and> keeper_round_2025 x \<noteq> None)
       (returned_rows (recommendations_of_frame ex_board Number ''Ann''))
   \<and> keeper_round_dtype (Some ex_null_draft) (Some ex_null_rankings) = Number
   \<and> length (manager_rows
         (create_keeper_analysis_dataframe (Some ex_null_draft) (Some ex_null_rankings)) ''Ann'') = 2
   \<and> map keeper_round_2025
         (returned_rows
            (api_keeper_recommendations (Some ex_null_draft) (Some ex_null_rankings) ''Ann'')) =
       [Some 1, None]"
proof -
  have a: "map player_name (manager_rows ex_board ''Ann'') =
     [''P1'', ''P2'', ''P3'', ''P6'', ''P7'', ''P8'', ''P9'']"
    and b: "map keeper_round_2025 (manager_rows ex_board ''Ann'') =
     [Some 2, Some 2, Some 1, Some 1, None, Some 5, Some 3]"
    and c: "length (filter (\<lambda>r. projected_draft_round_2025 r \<noteq> None \<and> keeper_round_2025 r \<noteq> None)
               (manager_rows ex_board ''Ann'')) = 6"
    by (simp_all add: ex_board_rows) (simp_all add: board_row_def)
  have d: "map player_name (returned_rows (recommendations_of_frame ex_board Number ''Ann'')) =
     [''P2'', ''P6'', ''P8'', ''P1'', ''P3'']"
    using ex_board_answer [THEN arg_cong, of "map fst"] by (simp add: comp_def)
  from null_keeper_round_ranks_last [of ex_board Number "''Ann''"] c
  have "\<forall>x \<in> set (returned_rows (recommendations_of_frame ex_board Number ''Ann'')).
          keeper_value x \<noteq> None \<and> keeper_round_2025 x \<noteq> None"
    by simp
  then have "list_all (\<lambda>x. keeper_value x \<noteq> None \<and> keeper_round_2025 x \<noteq> None)
       (returned_rows (recommendations_of_frame ex_board Number ''Ann''))"
    by (simp only: list_all_iff)
  moreover have "keeper_round_dtype (Some ex_null_draft) (Some ex_null_rankings) = Number"
    by (simp add: keeper_round_dtype_def column_dtype_def frame_defs ex_null_draft_def
          ex_null_rankings_def ex_teams_def)
  moreover have "length (manager_rows
         (create_keeper_analysis_dataframe (Some ex_null_draft) (Some ex_null_rankings)) ''Ann'') = 2"
    by (simp add: manager_rows_def create_keeper_analysis_dataframe_def frame_defs
          ex_null_draft_def ex_null_rankings_def ex_teams_def Let_def)
  moreover have "map keeper_round_2025
         (returned_rows
            (api_keeper_recommendations (Some ex_null_draft) (Some ex_null_rankings) ''Ann'')) =
       [Some 1, None]"
    by (simp add: ex_null_answer) (simp add: ex_null_joe_def ex_null_guy_def)
  ultimately show ?thesis using a b c d by (intro conjI)
qed

text \<open>
  C10 as stated fails where the manager has fewer than five eligible rows: Ann's New
  Guy has no draft round and is no waiver pickup, so his \<open>keeper_round_2025\<close> and
  \<open>keeper_value\<close> are missing, and he is returned, after Joe Back.
\<close>

theorem null_keeper_round_returned_counterexample:
  "api_keeper_recommendations (Some ex_null_draft) (Some ex_null_rankings) ''Ann'' =
     Success ''Ann'' [ex_null_joe, ex_null_guy] None
   \<and> keeper_round_2025 ex_null_guy = None \<and> keeper_value ex_null_guy = None
   \<and> keeper_eligible_2025 ex_null_guy \<and> manager_2024 ex_null_guy = ''Ann''"
  by (simp add: ex_null_answer) (simp add: ex_null_guy_def)

text \<open>Without Joe Back no pick of the draft has a keeper round: the keeper-round column
  is an \<open>object\<close> column and the selector answers with status 500.\<close>

lemma no_keeper_round_answers_500:
  "keeper_round_dtype (Some ex_no_round_draft) (Some ex_null_rankings) = Object
   \<and> map player_name
       (create_keeper_analysis_dataframe (Some ex_no_round_draft) (Some ex_null_rankings)) =
     [''New Guy'']
   \<and> api_keeper_recommendations (Some ex_no_round_draft) (Some ex_null_rankings) ''Ann'' =
     Failure 500 ''Internal server error''"
  by (simp add: api_keeper_recommendations_def recommendations_of_frame_def manager_rows_def
        keeper_round_dtype_def column_dtype_def
        create_keeper_analysis_dataframe_def frame_defs ex_no_round_draft_def ex_null_draft_def
        ex_null_rankings_def ex_teams_def Let_def)

section \<open>Properties of the keeper-status mutator\<close>

lemma filter_single_index:
  assumes "filter P xs = [p]"
  shows "\<exists>i < length xs. xs ! i = p \<and> (\<forall>j < length xs. j \<noteq> i \<longrightarrow> \<not> P (xs ! j))"
  using assms
proof (induction xs)
  case Nil
  then show ?case by simp
next
  case (Cons x xs)
  show ?case
  proof (cases "P x")
    case True
    with Cons.prems have x: "x = p" and none: "filter P xs = []" by simp_all
    from none have "\<forall>j < length xs. \<not> P (xs ! j)"
      by (simp add: filter_empty_conv)
    then have "\<forall>j < length (x # xs). j \<noteq> 0 \<longrightarrow> \<not> P ((x # xs) ! j)"
      by (auto simp: nth_Cons split: nat.splits)
    with x show ?thesis by (intro exI [of _ 0]) simp
  next
    case False
    with Cons.prems have "filter P xs = [p]" by simp
    from Cons.IH [OF this] obtain i where i: "i < length xs" "xs ! i = p"
      "\<forall>j < length xs. j \<noteq> i \<longrightarrow> \<not> P (xs ! j)" by blast
    have "\<forall>j < length (x # xs). j \<noteq> Suc i \<longrightarrow> \<not> P ((x # xs) ! j)"
    proof (intro allI impI)
      fix j assume "j < length (x # xs)" "j \<noteq> Suc i"
      with i(3) False show "\<not> P ((x # xs) ! j)"
        by (cases j) auto
    qed
    with i(1,2) show ?thesis by (intro exI [of _ "Suc i"]) simp
  qed
qed

lemma set_keeper_status_at:
  assumes "i < length picks"
    and "pick_player_name (picks ! i) = name" and "pick_team_id (picks ! i) = tid"
    and "\<forall>j < i. \<not> (pick_player_name (picks ! j) = name \<and> pick_team_id (picks ! j) = tid)"
  shows "set_keeper_status name tid b picks = picks[i := (picks ! i)\<lparr>pick_keeper_status := b\<rparr>]"
  using assms
proof (induction picks arbitrary: i)
  case Nil
  then show ?case by simp
next
  case (Cons p ps)
  show ?case
  proof (cases i)
    case 0
    with Cons.prems show ?thesis by simp
  next
    case (Suc k)
    with Cons.prems(4) have first: "\<not> (pick_player_name p = name \<and> pick_team_id p = tid)"
      by (metis nth_Cons_0 zero_less_Suc)
    have "\<forall>j < k. \<not> (pick_player_name (ps ! j) = name \<and> pick_team_id (ps ! j) = tid)"
    proof (intro allI impI)
      fix j assume "j < k"
      then have "Suc j < i" using Suc by simp
      with Cons.prems(4) show "\<not> (pick_player_name (ps ! j) = name \<and> pick_team_id (ps ! j) = tid)"
        by (metis nth_Cons_Suc)
    qed
    with Cons.IH [of k] Cons.prems(1,2,3) Suc
    have "set_keeper_status name tid b ps = ps[k := (ps ! k)\<lparr>pick_keeper_status := b\<rparr>]"
      by simp
    with first Suc show ?thesis by auto
  qed
qed

lemma name_matches_same_name:
  "pick_player_name q = pick_player_name p \<Longrightarrow> name_matches name q = name_matches name p"
  by (simp add: name_matches_def)

lemma update_keeper_unfold:
  assumes "strip typed = name" and "name \<noteq> []"
  shows "update_keeper typed (Some data) =
     (let matching_players = filter (name_matches name) (draft_picks data)
      in if matching_players = [] then (Some data, NoPlayerFound name)
         else if length matching_players > 1 then (Some data, MultipleFound matching_players)
         else
           (let player = hd matching_players;
                new_status = (\<not> pick_keeper_status player);
                picks = set_keeper_status (pick_player_name player) (pick_team_id player)
                          new_status (draft_picks data)
            in (Some (data\<lparr>draft_picks := picks\<rparr>),
                Updated (pick_player_name player) new_status)))"
  using assms by (simp add: update_keeper_def Let_def)

text \<open>
  C8. When the name the command reads (the input, trimmed, which the command takes
  only if it is not empty) is a case-insensitive substring of the name of exactly one
  DraftPick, the content written back is the content loaded with that one pick's
  \<open>keeper_status\<close> negated: the pick keeps its place and its other fields, every other
  pick, the teams and the draft_info are as loaded, and the whole document is written.
\<close>

theorem update_keeper_flips_one_status:
  assumes "strip typed = name" and "name \<noteq> []"
    and "filter (name_matches name) (draft_picks data) = [player]"
  shows "\<exists>i < length (draft_picks data).
           draft_picks data ! i = player
         \<and> (\<forall>j < length (draft_picks data). j \<noteq> i \<longrightarrow>
               \<not> name_matches name (draft_picks data ! j))
         \<and> update_keeper typed (Some data) =
             (Some (data\<lparr>draft_picks :=
                      (draft_picks data)
                        [i := player\<lparr>pick_keeper_status := \<not> pick_keeper_status player\<rparr>]\<rparr>),
              Updated (pick_player_name player) (\<not> pick_keeper_status player))"
proof -
  from filter_single_index [OF assms(3)] obtain i where
    i: "i < length (draft_picks data)" "draft_picks data ! i = player"
    and others: "\<forall>j < length (draft_picks data). j \<noteq> i \<longrightarrow>
                   \<not> name_matches name (draft_picks data ! j)"
    by blast
  have "player \<in> set (filter (name_matches name) (draft_picks data))"
    by (simp only: assms(3)) simp
  then have m: "name_matches name player" by simp
  have before: "\<forall>j < i. \<not> (pick_player_name (draft_picks data ! j) = pick_player_name player
                        \<and> pick_team_id (draft_picks data ! j) = pick_team_id player)"
  proof (intro allI impI)
    fix j assume j: "j < i"
    with i(1) others have "\<not> name_matches name (draft_picks data ! j)" by simp
    with m name_matches_same_name [of "draft_picks data ! j" player name]
    show "\<not> (pick_player_name (draft_picks data ! j) = pick_player_name player
             \<and> pick_team_id (draft_picks data ! j) = pick_team_id player)"
      by blast
  qed
  have upd: "set_keeper_status (pick_player_name player) (pick_team_id player)
               (\<not> pick_keeper_status player) (draft_picks data) =
             (draft_picks data)[i := player\<lparr>pick_keeper_status := \<not> pick_keeper_status player\<rparr>]"
    using set_keeper_status_at [OF i(1) _ _ before [unfolded i(2) [symmetric]],
            of "\<not> pick_keeper_status player"]
    by (simp add: i(2))
  have "update_keeper typed (Some data) =
             (Some (data\<lparr>draft_picks :=
                      (draft_picks data)
                        [i := player\<lparr>pick_keeper_status := \<not> pick_keeper_status player\<rparr>]\<rparr>),
              Updated (pick_player_name player) (\<not> pick_keeper_status player))"
    by (simp add: update_keeper_unfold [OF assms(1,2)] assms(3) upd Let_def)
  with i others show ?thesis by blast
qed

text \<open>
  C9. When the name the command reads (the input, trimmed, not empty) is a
  case-insensitive substring of the name of no DraftPick, or of more than one, the
  command writes nothing and the stored document is what it was; it reports that no
  player was found in the first case and the list of the matching picks in the second.
\<close>

theorem update_keeper_no_or_many_matches:
  assumes "strip typed = name" and "name \<noteq> []"
  shows "(filter (name_matches name) (draft_picks data) = [] \<longrightarrow>
            update_keeper typed (Some data) = (Some data, NoPlayerFound name))
         \<and> (1 < length (filter (name_matches name) (draft_picks data)) \<longrightarrow>
            update_keeper typed (Some data) =
              (Some data, MultipleFound (filter (name_matches name) (draft_picks data))))"
  by (auto simp: update_keeper_unfold [OF assms] Let_def)

text \<open>An empty input is refused before the file is opened; a file that cannot be
  opened stays as it is.\<close>

lemma update_keeper_name_required:
  "strip typed = [] \<Longrightarrow> update_keeper typed file = (file, NameRequired)"
  by (simp add: update_keeper_def)

lemma update_keeper_file_not_found:
  "strip typed \<noteq> [] \<Longrightarrow> update_keeper typed None = (None, FileNotFound)"
  by (simp add: update_keeper_def Let_def)

lemma ex_lower:
  "lower ''sam'' = ''sam''" "lower ''k'' = ''k''" "lower ''zzz'' = ''zzz''"
  "lower ''Joe Back '' = ''joe back ''" "lower ''Sam Wide'' = ''sam wide''"
  "lower ''Kick Er'' = ''kick er''" "lower ''No Rank'' = ''no rank''"
  by code_simp+

lemma ex_strip: "strip '' sam '' = ''sam''" "strip ''k'' = ''k''" "strip ''zzz'' = ''zzz''"
  by (simp_all add: strip_def is_space_def)

lemma ex_sam_matches: "filter (name_matches ''sam'') (draft_picks ex_draft) = [ex_picks ! 1]"
  by (simp add: ex_draft_def ex_picks_def name_matches_def ex_lower startswith_def)

lemma ex_zzz_matches: "filter (name_matches ''zzz'') (draft_picks ex_draft) = []"
  by (simp add: ex_draft_def ex_picks_def name_matches_def ex_lower startswith_def)

lemma ex_k_matches:
  "filter (name_matches ''k'') (draft_picks ex_draft) = [ex_picks ! 0, ex_picks ! 2, ex_picks ! 3]"
  by (simp add: ex_draft_def ex_picks_def name_matches_def ex_lower startswith_def)

theorem update_keeper_flips_one_status_witness:
  "strip '' sam '' = ''sam''
   \<and> map pick_player_name (filter (name_matches ''sam'') (draft_picks ex_draft)) = [''Sam Wide'']
   \<and> map pick_keeper_status (draft_picks ex_draft) = [False, True, False, False]
   \<and> update_keeper '' sam '' (Some ex_draft) =
       (Some (ex_draft\<lparr>draft_picks :=
                (draft_picks ex_draft)
                  [1 := (draft_picks ex_draft ! 1)\<lparr>pick_keeper_status := False\<rparr>]\<rparr>),
        Updated ''Sam Wide'' False)"
proof -
  have ne: "''sam'' \<noteq> []" by simp
  from update_keeper_flips_one_status [OF ex_strip(1) ne ex_sam_matches]
  obtain i where i: "i < length (draft_picks ex_draft)" "draft_picks ex_draft ! i = ex_picks ! 1"
    and u: "update_keeper '' sam '' (Some ex_draft) =
       (Some (ex_draft\<lparr>draft_picks :=
                (draft_picks ex_draft)
                  [i := (ex_picks ! 1)\<lparr>pick_keeper_status := \<not> pick_keeper_status (ex_picks ! 1)\<rparr>]\<rparr>),
        Updated (pick_player_name (ex_picks ! 1)) (\<not> pick_keeper_status (ex_picks ! 1)))"
    by blast
  have d: "distinct ex_picks" by (simp add: ex_picks_def)
  have p: "draft_picks ex_draft = ex_picks" by (simp add: ex_draft_def)
  have "1 < length ex_picks" by (simp add: ex_picks_def)
  with i d have "i = 1"
    unfolding p by (simp add: nth_eq_iff_index_eq)
  with u have "update_keeper '' sam '' (Some ex_draft) =
       (Some (ex_draft\<lparr>draft_picks :=
                (draft_picks ex_draft)
                  [1 := (draft_picks ex_draft ! 1)\<lparr>pick_keeper_status := False\<rparr>]\<rparr>),
        Updated ''Sam Wide'' False)"
    by (simp add: p) (simp add: ex_picks_def)
  moreover have "map pick_player_name (filter (name_matches ''sam'') (draft_picks ex_draft)) =
      [''Sam Wide'']"
    by (simp only: ex_sam_matches) (simp add: ex_picks_def)
  moreover have "map pick_keeper_status (draft_picks ex_draft) = [False, True, False, False]"
    by (simp add: p ex_picks_def)
  ultimately show ?thesis using ex_strip(1) by (intro conjI)
qed

theorem update_keeper_no_or_many_matches_witness:
  "strip ''zzz'' = ''zzz''
   \<and> filter (name_matches ''zzz'') (draft_picks ex_draft) = []
   \<and> update_keeper ''zzz'' (Some ex_draft) = (Some ex_draft, NoPlayerFound ''zzz'')
   \<and> strip ''k'' = ''k''
   \<and> map pick_player_name (filter (name_matches ''k'') (draft_picks ex_draft)) =
       [''Joe Back '', ''Kick Er'', ''No Rank'']
   \<and> update_keeper ''k'' (Some ex_draft) =
       (Some ex_draft, MultipleFound (filter (name_matches ''k'') (draft_picks ex_draft)))"
proof -
  have "''zzz'' \<noteq> []" and "''k'' \<noteq> []" by simp_all
  with update_keeper_no_or_many_matches [OF ex_strip(3), of ex_draft]
    update_keeper_no_or_many_matches [OF ex_strip(2), of ex_draft]
  have "update_keeper ''zzz'' (Some ex_draft) = (Some ex_draft, NoPlayerFound ''zzz'')"
    and "update_keeper ''k'' (Some ex_draft) =
       (Some ex_draft, MultipleFound (filter (name_matches ''k'') (draft_picks ex_draft)))"
    by (simp_all add: ex_zzz_matches ex_k_matches)
  moreover have "map pick_player_name (filter (name_matches ''k'') (draft_picks ex_draft)) =
       [''Joe Back '', ''Kick Er'', ''No Rank'']"
    by (simp only: ex_k_matches) (simp add: ex_picks_def)
  ultimately show ?thesis using ex_strip(2,3) ex_zzz_matches by (intro conjI)
qed

end
